theory Spec2Isabelle
  imports Main
begin

section \<open>Credentials of the API client (api/client/credentials.go)\<close>

text \<open>
  The development embeds the credential providers of \<^verbatim>\<open>api/client/credentials.go\<close>:
  the static identity-file credentials, \<^verbatim>\<open>configureTLS\<close> and the reloadable
  \<^verbatim>\<open>DynamicIdentityFileCreds\<close>. Go objects that are shared through pointers live in
  explicit stores; closures that capture a pointer are functions of the store at the moment
  they are called. The mutex \<^verbatim>\<open>mu\<close> is not modelled: every function below is one sequential
  call.
\<close>

subsection \<open>Errors, panics\<close>

text \<open>
  An error of the \<^verbatim>\<open>trace\<close> package: the kind that the \<^verbatim>\<open>trace.IsXxx\<close> predicates test, and
  the text of \<^verbatim>\<open>Error()\<close>. \<^verbatim>\<open>trace.Wrap\<close> adds a stack trace and keeps both.
\<close>

datatype error_kind =
  BadParameterKind | NotImplementedKind | NotFoundKind | AccessDeniedKind | UnclassifiedKind

datatype error = TraceError (kind: error_kind) (message: string)

definition BadParameter :: "string \<Rightarrow> error" where
  "BadParameter msg = TraceError BadParameterKind msg"

definition NotImplemented :: "string \<Rightarrow> error" where
  "NotImplemented msg = TraceError NotImplementedKind msg"

definition trace_Wrap :: "error \<Rightarrow> error" where
  "trace_Wrap err = err"

text \<open>A call either panics (nil dereference, slice bounds) or returns.\<close>

datatype 'a outcome = Panic string | Return 'a

subsection \<open>Data\<close>

type_synonym bytes = string

text \<open>
  The fields of \<^verbatim>\<open>identityfile.IdentityFile\<close> that this file reads:
  \<^verbatim>\<open>id.PrivateKey\<close>, \<^verbatim>\<open>id.Certs.SSH\<close>, \<^verbatim>\<open>id.Certs.TLS\<close>, \<^verbatim>\<open>id.CACerts.SSH\<close>, \<^verbatim>\<open>id.CACerts.TLS\<close>.
\<close>

record IdentityFile =
  PrivateKey :: bytes
  Certs_SSH :: bytes
  Certs_TLS :: bytes
  CACerts_SSH :: "bytes list"
  CACerts_TLS :: "bytes list"

text \<open>
  What \<^verbatim>\<open>identityfile.ReadFile\<close> returns for each path at the moment of a call. A pointer
  is \<open>None\<close> when nil; the zero value of a slice is the empty list.
\<close>

type_synonym filesystem = "string \<Rightarrow> error + IdentityFile"

record ('cert, 'pool, 'sc, 'k, 'pk) DynamicIdentityFileCreds =
  tlsCert :: "'cert option"
  tlsRootCAs :: "'pool option"
  sshCert :: "'sc option"
  sshKey :: "'k option"
  sshKnownHosts :: "'pk list"
  Path :: string

text \<open>The store of providers: a pointer is an index, an index out of range is nil.\<close>

type_synonym ('cert, 'pool, 'sc, 'k, 'pk) creds_store =
  "('cert, 'pool, 'sc, 'k, 'pk) DynamicIdentityFileCreds list"

subsection \<open>TLS and SSH configuration objects\<close>

text \<open>
  A Go slice of strings: a window of \<open>len\<close> elements, starting at \<open>off\<close>, of the backing
  array \<open>base\<close>, which has room for \<open>cap\<close> elements from \<open>off\<close> on. The nil slice has
  \<open>len = 0\<close> and \<open>cap = 0\<close>.
\<close>

record slice =
  base :: nat
  off :: nat
  len :: nat
  cap :: nat

text \<open>\<^verbatim>\<open>tls.ConnectionState\<close> and \<^verbatim>\<open>x509.VerifyOptions\<close>, with the fields the callbacks use.\<close>

record 'x ConnectionState =
  CS_ServerName :: string
  PeerCertificates :: "'x list"

record 'pool VerifyOptions =
  DNSName :: string
  Intermediates :: 'pool
  Roots :: "'pool option"

text \<open>
  \<^verbatim>\<open>tls.Config\<close>, with the fields that this file sets or reads. A callback is \<open>None\<close> when
  nil; otherwise it is a closure, run on the store \<open>'h\<close> that its captured pointers point
  into. \<open>Certificates\<close> is only read at index 0 and reset to nil, so it is kept as a list.
\<close>

record ('cert, 'pool, 'x, 'h) tls_Config =
  NextProtos :: slice
  ServerName :: string
  Certificates :: "'cert list"
  GetClientCertificate :: "('h \<Rightarrow> ('cert option \<times> error option) outcome) option"
  RootCAs :: "'pool option"
  InsecureSkipVerify :: bool
  VerifyConnection :: "('h \<Rightarrow> 'x ConnectionState \<Rightarrow> error option outcome) option"

text \<open>The store of \<^verbatim>\<open>tls.Config\<close> objects and of the backing arrays of their slices.\<close>

record ('cert, 'pool, 'x, 'h) tls_store =
  configs :: "('cert, 'pool, 'x, 'h) tls_Config list"
  arrays :: "string list list"

text \<open>\<^verbatim>\<open>ssh.ClientConfig\<close> and the configuration of \<^verbatim>\<open>sshutils.NewHostKeyCallback\<close>.\<close>

datatype ('sg, 'h) AuthMethod =
  PublicKeysCallback "'h \<Rightarrow> ('sg list \<times> error option) outcome"

record ('pk, 'h) HostKeyCallbackConfig =
  GetHostCheckers :: "'h \<Rightarrow> ('pk list \<times> error option) outcome"

record ('sg, 'hk, 'h) ssh_ClientConfig =
  Auth :: "('sg, 'h) AuthMethod list"
  HostKeyCallback :: 'hk
  Timeout :: nat
  User :: string

subsection \<open>Functions of other packages\<close>

text \<open>
  The packages \<^verbatim>\<open>identityfile\<close>, \<^verbatim>\<open>keys\<close>, \<^verbatim>\<open>sshutils\<close>, \<^verbatim>\<open>utils\<close>, \<^verbatim>\<open>defaults\<close>, \<^verbatim>\<open>x509\<close> are not
  part of the sources at hand. Each function that \<^verbatim>\<open>credentials.go\<close> calls is a parameter,
  collected in one record. A function that returns \<^verbatim>\<open>(value, error)\<close> is a sum, on the
  understanding that its value is non-nil when its error is nil. \<^verbatim>\<open>utils.Deduplicate\<close> maps
  the elements of its argument to the elements of its result and writes to no array that
  exists.
\<close>

record ('cert, 'pool, 'x, 'sc, 'k, 'pk, 'sg, 'hk) externals =
  identityfile_FromString :: "string \<Rightarrow> error + IdentityFile"
  IdentityFile_TLSConfig ::
    "('cert, 'pool, 'x, ('cert, 'pool, 'sc, 'k, 'pk) creds_store) tls_store \<Rightarrow> IdentityFile \<Rightarrow>
     ('cert, 'pool, 'x, ('cert, 'pool, 'sc, 'k, 'pk) creds_store) tls_store \<times> (error + nat)"
  IdentityFile_SSHClientConfig ::
    "IdentityFile \<Rightarrow> error + ('sg, 'hk, ('cert, 'pool, 'sc, 'k, 'pk) creds_store) ssh_ClientConfig"
  keys_X509KeyPair :: "bytes \<Rightarrow> bytes \<Rightarrow> error + 'cert"
  keys_ParsePrivateKey :: "bytes \<Rightarrow> error + 'k"
  x509_NewCertPool :: 'pool
  x509_AppendCertsFromPEM :: "'pool \<Rightarrow> bytes \<Rightarrow> 'pool \<times> bool"
  x509_AddCert :: "'pool \<Rightarrow> 'x \<Rightarrow> 'pool"
  x509_Verify :: "'x \<Rightarrow> 'pool VerifyOptions \<Rightarrow> error option"
  sshutils_ParseCertificate :: "bytes \<Rightarrow> error + 'sc"
  sshutils_ParseKnownHosts :: "bytes list \<Rightarrow> error + 'pk list"
  sshutils_SSHSigner :: "'sc option \<Rightarrow> 'k option \<Rightarrow> error + 'sg"
  sshutils_NewHostKeyCallback ::
    "('pk, ('cert, 'pool, 'sc, 'k, 'pk) creds_store) HostKeyCallbackConfig \<Rightarrow> error + 'hk"
  utils_Deduplicate :: "string list \<Rightarrow> string list"
  defaults_DefaultIOTimeout :: nat

text \<open>
  \<^verbatim>\<open>constants.APIDomain\<close>, the name ``included on all Teleport Auth Server certificates'' as
  the comment in \<^verbatim>\<open>TLSConfig\<close> spells it, and \<^verbatim>\<open>http2.NextProtoTLS\<close>, which the same function
  calls ``the default NextProto of h2''.
\<close>

definition APIDomain :: string where
  "APIDomain = ''teleport.cluster.local''"

definition NextProtoTLS :: string where
  "NextProtoTLS = ''h2''"

subsection \<open>DynamicIdentityFileCreds\<close>

text \<open>
  The loop of \<^verbatim>\<open>Reload\<close> over \<^verbatim>\<open>id.CACerts.TLS\<close>: \<open>None\<close> is the early return on a PEM that
  \<^verbatim>\<open>AppendCertsFromPEM\<close> refuses.
\<close>

fun Reload_caCerts ::
  "('cert, 'pool, 'x, 'sc, 'k, 'pk, 'sg, 'hk) externals \<Rightarrow> 'pool \<Rightarrow> bytes list \<Rightarrow> 'pool option" where
  "Reload_caCerts ext pool [] = Some pool"
| "Reload_caCerts ext pool (caCerts # rest) =
     (case x509_AppendCertsFromPEM ext pool caCerts of
        (pool', ok) \<Rightarrow> if \<not> ok then None else Reload_caCerts ext pool' rest)"

text \<open>
  \<^verbatim>\<open>Reload\<close> on the provider at \<open>d\<close>: read and parse everything, return at the first error,
  and only then assign the five fields.
\<close>

definition Reload ::
  "('cert, 'pool, 'x, 'sc, 'k, 'pk, 'sg, 'hk) externals \<Rightarrow> filesystem \<Rightarrow>
   ('cert, 'pool, 'sc, 'k, 'pk) creds_store \<Rightarrow> nat \<Rightarrow>
   (('cert, 'pool, 'sc, 'k, 'pk) creds_store \<times> error option) outcome" where
  "Reload ext fs h d =
    (if length h \<le> d then Panic ''nil pointer dereference''
     else case fs (Path (h ! d)) of
       Inl err \<Rightarrow> Return (h, Some (trace_Wrap err))
     | Inr ident \<Rightarrow>
     (case keys_X509KeyPair ext (Certs_TLS ident) (PrivateKey ident) of
       Inl err \<Rightarrow> Return (h, Some (trace_Wrap err))
     | Inr cert \<Rightarrow>
     (case Reload_caCerts ext (x509_NewCertPool ext) (CACerts_TLS ident) of
       None \<Rightarrow> Return (h, Some (BadParameter ''invalid CA cert PEM''))
     | Some pool \<Rightarrow>
     (case sshutils_ParseCertificate ext (Certs_SSH ident) of
       Inl err \<Rightarrow> Return (h, Some (trace_Wrap err))
     | Inr sshCert' \<Rightarrow>
     (case keys_ParsePrivateKey ext (PrivateKey ident) of
       Inl err \<Rightarrow> Return (h, Some (trace_Wrap err))
     | Inr sshPrivateKey \<Rightarrow>
     (case sshutils_ParseKnownHosts ext (CACerts_SSH ident) of
       Inl err \<Rightarrow> Return (h, Some (trace_Wrap err))
     | Inr knownHosts \<Rightarrow>
       Return (h[d := (h ! d)\<lparr>tlsRootCAs := Some pool, tlsCert := Some cert,
                 sshCert := Some sshCert', sshKey := Some sshPrivateKey,
                 sshKnownHosts := knownHosts\<rparr>], None)))))))"

text \<open>
  \<^verbatim>\<open>NewDynamicIdentityFileCreds\<close>: a new provider with only \<open>Path\<close> set, then \<^verbatim>\<open>Reload\<close>.
  The result is the store, the pointer (\<open>None\<close> is nil) and the error.
\<close>

definition NewDynamicIdentityFileCreds ::
  "('cert, 'pool, 'x, 'sc, 'k, 'pk, 'sg, 'hk) externals \<Rightarrow> filesystem \<Rightarrow>
   ('cert, 'pool, 'sc, 'k, 'pk) creds_store \<Rightarrow> string \<Rightarrow>
   (('cert, 'pool, 'sc, 'k, 'pk) creds_store \<times> nat option \<times> error option) outcome" where
  "NewDynamicIdentityFileCreds ext fs h path =
    (let d = length h;
         h1 = h @ [\<lparr>tlsCert = None, tlsRootCAs = None, sshCert = None, sshKey = None,
                    sshKnownHosts = [], Path = path\<rparr>]
     in case Reload ext fs h1 d of
          Panic msg \<Rightarrow> Panic msg
        | Return (h2, Some err) \<Rightarrow> Return (h2, None, Some (trace_Wrap err))
        | Return (h2, None) \<Rightarrow> Return (h2, Some d, None))"

text \<open>
  The closures of \<^verbatim>\<open>TLSConfig\<close>. Each captures the pointer \<open>d\<close> and reads the provider when
  it is called. \<^verbatim>\<open>GetClientCertificate\<close> ignores its argument, which is left out.
  \<^verbatim>\<open>VerifyConnection\<close> builds the options first and then slices
  \<^verbatim>\<open>state.PeerCertificates[1:]\<close>, which panics on an empty list.
\<close>

definition TLSConfig_GetClientCertificate ::
  "nat \<Rightarrow> ('cert, 'pool, 'sc, 'k, 'pk) creds_store \<Rightarrow> ('cert option \<times> error option) outcome" where
  "TLSConfig_GetClientCertificate d h =
    (if length h \<le> d then Panic ''nil pointer dereference''
     else Return (tlsCert (h ! d), None))"

definition TLSConfig_VerifyConnection ::
  "('cert, 'pool, 'x, 'sc, 'k, 'pk, 'sg, 'hk) externals \<Rightarrow> nat \<Rightarrow>
   ('cert, 'pool, 'sc, 'k, 'pk) creds_store \<Rightarrow> 'x ConnectionState \<Rightarrow> error option outcome" where
  "TLSConfig_VerifyConnection ext d h state =
    (if length h \<le> d then Panic ''nil pointer dereference''
     else
       let opts = \<lparr>DNSName = CS_ServerName state, Intermediates = x509_NewCertPool ext,
                   Roots = tlsRootCAs (h ! d)\<rparr>
       in case PeerCertificates state of
            [] \<Rightarrow> Panic ''slice bounds out of range [1:0]''
          | leaf # rest \<Rightarrow>
              Return (x509_Verify ext leaf
                (opts\<lparr>Intermediates := foldl (x509_AddCert ext) (Intermediates opts) rest\<rparr>)))"

text \<open>
  \<^verbatim>\<open>TLSConfig\<close> allocates the array of \<^verbatim>\<open>[]string{http2.NextProtoTLS}\<close> and the configuration,
  and returns the pointer to it with a nil error. It reads no field of the provider.
\<close>

definition DynamicIdentityFileCreds_TLSConfig ::
  "('cert, 'pool, 'x, 'sc, 'k, 'pk, 'sg, 'hk) externals \<Rightarrow>
   ('cert, 'pool, 'x, ('cert, 'pool, 'sc, 'k, 'pk) creds_store) tls_store \<Rightarrow> nat \<Rightarrow>
   ('cert, 'pool, 'x, ('cert, 'pool, 'sc, 'k, 'pk) creds_store) tls_store \<times> nat option \<times> error option" where
  "DynamicIdentityFileCreds_TLSConfig ext t d =
    (let cfg = \<lparr>NextProtos = \<lparr>base = length (arrays t), off = 0, len = 1, cap = 1\<rparr>,
                ServerName = APIDomain,
                Certificates = [],
                GetClientCertificate = Some (TLSConfig_GetClientCertificate d),
                RootCAs = None,
                InsecureSkipVerify = True,
                VerifyConnection = Some (TLSConfig_VerifyConnection ext d)\<rparr>
     in (t\<lparr>configs := configs t @ [cfg], arrays := arrays t @ [[NextProtoTLS]]\<rparr>,
         Some (length (configs t)), None))"

text \<open>The closures of \<^verbatim>\<open>SSHClientConfig\<close>; a nil slice of signers is the empty list.\<close>

definition SSHClientConfig_GetHostCheckers ::
  "nat \<Rightarrow> ('cert, 'pool, 'sc, 'k, 'pk) creds_store \<Rightarrow> ('pk list \<times> error option) outcome" where
  "SSHClientConfig_GetHostCheckers d h =
    (if length h \<le> d then Panic ''nil pointer dereference''
     else Return (sshKnownHosts (h ! d), None))"

definition SSHClientConfig_PublicKeysCallback ::
  "('cert, 'pool, 'x, 'sc, 'k, 'pk, 'sg, 'hk) externals \<Rightarrow> nat \<Rightarrow>
   ('cert, 'pool, 'sc, 'k, 'pk) creds_store \<Rightarrow> ('sg list \<times> error option) outcome" where
  "SSHClientConfig_PublicKeysCallback ext d h =
    (if length h \<le> d then Panic ''nil pointer dereference''
     else case sshutils_SSHSigner ext (sshCert (h ! d)) (sshKey (h ! d)) of
            Inl err \<Rightarrow> Return ([], Some (trace_Wrap err))
          | Inr sshSigner \<Rightarrow> Return ([sshSigner], None))"



subsection \<open>configureTLS\<close>

text \<open>The elements that a slice shows, and \<^verbatim>\<open>append\<close> of one element: in place when there is
  room behind the window, into a new array otherwise (with exactly the room needed; Go may
  give more, which nothing here reads).\<close>

definition slice_elems :: "string list list \<Rightarrow> slice \<Rightarrow> string list" where
  "slice_elems arrs s = take (len s) (drop (off s) (arrs ! base s))"

definition append_slice :: "string list list \<Rightarrow> slice \<Rightarrow> string \<Rightarrow> string list list \<times> slice" where
  "append_slice arrs s x =
    (if len s < cap s
     then (arrs[base s := (arrs ! base s)[off s + len s := x]], s\<lparr>len := len s + 1\<rparr>)
     else (arrs @ [slice_elems arrs s @ [x]],
           \<lparr>base = length arrs, off = 0, len = len s + 1, cap = len s + 1\<rparr>))"

text \<open>
  What Go maintains of every slice: its length is within its capacity, and a slice with
  room points into an array that exists and holds that room. The nil slice satisfies it.
\<close>

definition slice_ok :: "string list list \<Rightarrow> slice \<Rightarrow> bool" where
  "slice_ok arrs s =
    (len s \<le> cap s \<and>
     (cap s = 0 \<or> (base s < length arrs \<and> off s + cap s \<le> length (arrs ! base s))))"

text \<open>An assignment to fields of the configuration behind the pointer \<open>p\<close>.\<close>

definition modify_config ::
  "('cert, 'pool, 'x, 'h) tls_store \<Rightarrow> nat \<Rightarrow>
   (('cert, 'pool, 'x, 'h) tls_Config \<Rightarrow> ('cert, 'pool, 'x, 'h) tls_Config) \<Rightarrow>
   ('cert, 'pool, 'x, 'h) tls_store" where
  "modify_config t p f = t\<lparr>configs := (configs t)[p := f (configs t ! p)]\<rparr>"

text \<open>
  \<^verbatim>\<open>configureTLS\<close>: \<^verbatim>\<open>Clone\<close> copies the fields into a new object (the slice header, not the
  array); every later assignment goes through the pointer to the clone. The result of
  \<^verbatim>\<open>utils.Deduplicate\<close> is put into an array of its own.
\<close>

definition configureTLS ::
  "('cert, 'pool, 'x, 'sc, 'k, 'pk, 'sg, 'hk) externals \<Rightarrow>
   ('cert, 'pool, 'x, ('cert, 'pool, 'sc, 'k, 'pk) creds_store) tls_store \<Rightarrow> nat \<Rightarrow>
   (('cert, 'pool, 'x, ('cert, 'pool, 'sc, 'k, 'pk) creds_store) tls_store \<times> nat) outcome" where
  "configureTLS ext t c =
    (if length (configs t) \<le> c then Panic ''nil pointer dereference''
     else
       let tlsConfig = length (configs t);
           t1 = t\<lparr>configs := configs t @ [configs t ! c]\<rparr>;
           (arrs, appended) =
              append_slice (arrays t1) (NextProtos (configs t1 ! tlsConfig)) NextProtoTLS;
           deduped = utils_Deduplicate ext (slice_elems arrs appended);
           t2 = modify_config (t1\<lparr>arrays := arrs @ [deduped]\<rparr>) tlsConfig
                  (\<lambda>cfg. cfg\<lparr>NextProtos := \<lparr>base = length arrs, off = 0,
                                             len = length deduped, cap = length deduped\<rparr>\<rparr>);
           t3 = (if ServerName (configs t2 ! tlsConfig) = []
                 then modify_config t2 tlsConfig (\<lambda>cfg. cfg\<lparr>ServerName := APIDomain\<rparr>)
                 else t2);
           t4 = (if length (Certificates (configs t3 ! tlsConfig)) > 0
                 then let cert = Certificates (configs t3 ! tlsConfig) ! 0
                      in modify_config t3 tlsConfig
                           (\<lambda>cfg. cfg\<lparr>Certificates := [],
                                       GetClientCertificate := Some (\<lambda>_. Return (Some cert, None))\<rparr>)
                 else t3)
       in Return (t4, tlsConfig))"

subsection \<open>Static identity-file credentials\<close>

text \<open>
  \<^verbatim>\<open>identityCredsFile\<close> and \<^verbatim>\<open>identityCredsString\<close>. The second struct's field
  \<^verbatim>\<open>identityFile\<close> is \<open>identityFileS\<close> here, since the names of record fields are global.
  On an error \<^verbatim>\<open>load\<close> assigns the nil pointer that came with it.
\<close>

record identityCredsFile =
  identityFile :: "IdentityFile option"
  path :: string

record identityCredsString =
  identityFileS :: "IdentityFile option"
  content :: string

definition identityCredsFile_load ::
  "filesystem \<Rightarrow> identityCredsFile \<Rightarrow> identityCredsFile \<times> error option" where
  "identityCredsFile_load fs c =
    (if identityFile c \<noteq> None then (c, None)
     else case fs (path c) of
        Inl err \<Rightarrow>
          (c\<lparr>identityFile := None\<rparr>,
           Some (BadParameter (''identity file could not be decoded: '' @ message err)))
      | Inr ident \<Rightarrow> (c\<lparr>identityFile := Some ident\<rparr>, None))"

definition identityCredsString_load ::
  "('cert, 'pool, 'x, 'sc, 'k, 'pk, 'sg, 'hk) externals \<Rightarrow> identityCredsString \<Rightarrow>
   identityCredsString \<times> error option" where
  "identityCredsString_load ext c =
    (if identityFileS c \<noteq> None then (c, None)
     else case identityfile_FromString ext (content c) of
        Inl err \<Rightarrow>
          (c\<lparr>identityFileS := None\<rparr>,
           Some (BadParameter (''identity file could not be decoded: '' @ message err)))
      | Inr ident \<Rightarrow> (c\<lparr>identityFileS := Some ident\<rparr>, None))"

text \<open>
  The methods return the receiver after the call and what the call returns. The branch for
  a nil \<^verbatim>\<open>c.identityFile\<close> after a successful \<^verbatim>\<open>load\<close> is the nil dereference in the
  method of \<^verbatim>\<open>IdentityFile\<close>.
\<close>

definition identityCredsFile_TLSConfig ::
  "('cert, 'pool, 'x, 'sc, 'k, 'pk, 'sg, 'hk) externals \<Rightarrow> filesystem \<Rightarrow>
   ('cert, 'pool, 'x, ('cert, 'pool, 'sc, 'k, 'pk) creds_store) tls_store \<Rightarrow> identityCredsFile \<Rightarrow>
   identityCredsFile \<times>
   (('cert, 'pool, 'x, ('cert, 'pool, 'sc, 'k, 'pk) creds_store) tls_store \<times>
    nat option \<times> error option) outcome" where
  "identityCredsFile_TLSConfig ext fs t c =
    (case identityCredsFile_load fs c of
       (c', Some err) \<Rightarrow> (c', Return (t, None, Some (trace_Wrap err)))
     | (c', None) \<Rightarrow>
        (case identityFile c' of
           None \<Rightarrow> (c', Panic ''nil pointer dereference'')
         | Some ident \<Rightarrow>
            (case IdentityFile_TLSConfig ext t ident of
               (t', Inl err) \<Rightarrow> (c', Return (t', None, Some (trace_Wrap err)))
             | (t', Inr tlsConfig) \<Rightarrow>
                 (case configureTLS ext t' tlsConfig of
                    Panic msg \<Rightarrow> (c', Panic msg)
                  | Return (t'', p) \<Rightarrow> (c', Return (t'', Some p, None))))))"

definition identityCredsFile_SSHClientConfig ::
  "('cert, 'pool, 'x, 'sc, 'k, 'pk, 'sg, 'hk) externals \<Rightarrow> filesystem \<Rightarrow> identityCredsFile \<Rightarrow>
   identityCredsFile \<times>
   (('sg, 'hk, ('cert, 'pool, 'sc, 'k, 'pk) creds_store) ssh_ClientConfig option \<times>
    error option) outcome" where
  "identityCredsFile_SSHClientConfig ext fs c =
    (case identityCredsFile_load fs c of
       (c', Some err) \<Rightarrow> (c', Return (None, Some (trace_Wrap err)))
     | (c', None) \<Rightarrow>
        (case identityFile c' of
           None \<Rightarrow> (c', Panic ''nil pointer dereference'')
         | Some ident \<Rightarrow>
            (case IdentityFile_SSHClientConfig ext ident of
               Inl err \<Rightarrow> (c', Return (None, Some (trace_Wrap err)))
             | Inr sshConfig \<Rightarrow> (c', Return (Some sshConfig, None)))))"

definition identityCredsString_TLSConfig ::
  "('cert, 'pool, 'x, 'sc, 'k, 'pk, 'sg, 'hk) externals \<Rightarrow>
   ('cert, 'pool, 'x, ('cert, 'pool, 'sc, 'k, 'pk) creds_store) tls_store \<Rightarrow> identityCredsString \<Rightarrow>
   identityCredsString \<times>
   (('cert, 'pool, 'x, ('cert, 'pool, 'sc, 'k, 'pk) creds_store) tls_store \<times>
    nat option \<times> error option) outcome" where
  "identityCredsString_TLSConfig ext t c =
    (case identityCredsString_load ext c of
       (c', Some err) \<Rightarrow> (c', Return (t, None, Some (trace_Wrap err)))
     | (c', None) \<Rightarrow>
        (case identityFileS c' of
           None \<Rightarrow> (c', Panic ''nil pointer dereference'')
         | Some ident \<Rightarrow>
            (case IdentityFile_TLSConfig ext t ident of
               (t', Inl err) \<Rightarrow> (c', Return (t', None, Some (trace_Wrap err)))
             | (t', Inr tlsConfig) \<Rightarrow>
                 (case configureTLS ext t' tlsConfig of
                    Panic msg \<Rightarrow> (c', Panic msg)
                  | Return (t'', p) \<Rightarrow> (c', Return (t'', Some p, None))))))"

definition identityCredsString_SSHClientConfig ::
  "('cert, 'pool, 'x, 'sc, 'k, 'pk, 'sg, 'hk) externals \<Rightarrow> identityCredsString \<Rightarrow>
   identityCredsString \<times>
   (('sg, 'hk, ('cert, 'pool, 'sc, 'k, 'pk) creds_store) ssh_ClientConfig option \<times>
    error option) outcome" where
  "identityCredsString_SSHClientConfig ext c =
    (case identityCredsString_load ext c of
       (c', Some err) \<Rightarrow> (c', Return (None, Some (trace_Wrap err)))
     | (c', None) \<Rightarrow>
        (case identityFileS c' of
           None \<Rightarrow> (c', Panic ''nil pointer dereference'')
         | Some ident \<Rightarrow>
            (case IdentityFile_SSHClientConfig ext ident of
               Inl err \<Rightarrow> (c', Return (None, Some (trace_Wrap err)))
             | Inr sshConfig \<Rightarrow> (c', Return (Some sshConfig, None)))))"

subsection \<open>A small instance of the parameters\<close>

text \<open>
  To run the definitions on concrete inputs, the parameters get a small instance: a parsed
  object is the text it was parsed from, empty text does not parse, a pool is the list of
  the names it trusts, a peer certificate is its name and the name of its issuer, and a
  chain verifies when the leaf carries the requested name and its issuer is a root.
\<close>

type_synonym toy_store = "(bytes \<times> bytes, string list, bytes, bytes, bytes) creds_store"

type_synonym toy_externals =
  "(bytes \<times> bytes, string list, string \<times> string, bytes, bytes, bytes, bytes \<times> bytes,
    (bytes, toy_store) HostKeyCallbackConfig) externals"

definition toy_parse :: "bytes \<Rightarrow> error + bytes" where
  "toy_parse b = (if b = [] then Inl (BadParameter ''no data'') else Inr b)"

definition toy_Verify :: "string \<times> string \<Rightarrow> string list VerifyOptions \<Rightarrow> error option" where
  "toy_Verify leaf opts =
    (if fst leaf = DNSName opts \<and>
        (case Roots opts of None \<Rightarrow> False | Some roots \<Rightarrow> snd leaf \<in> set roots)
     then None
     else Some (TraceError UnclassifiedKind ''x509: certificate is not valid''))"

definition toy_identity :: "bytes \<Rightarrow> IdentityFile" where
  "toy_identity name =
    \<lparr>PrivateKey = name @ ''-key'', Certs_SSH = name @ ''-ssh'', Certs_TLS = name @ ''-tls'',
     CACerts_SSH = [name @ ''-hostca''], CACerts_TLS = [name @ ''-ca'']\<rparr>"

definition toy_ext :: toy_externals where
  "toy_ext =
    \<lparr>identityfile_FromString =
        (\<lambda>s. if s = [] then Inl (BadParameter ''empty identity'') else Inr (toy_identity s)),
     IdentityFile_TLSConfig =
        (\<lambda>t ident.
           (t\<lparr>configs := configs t @
                 [\<lparr>NextProtos = \<lparr>base = 0, off = 0, len = 0, cap = 0\<rparr>, ServerName = [],
                   Certificates = [(Certs_TLS ident, PrivateKey ident)],
                   GetClientCertificate = None, RootCAs = Some (CACerts_TLS ident),
                   InsecureSkipVerify = False, VerifyConnection = None\<rparr>]\<rparr>,
            Inr (length (configs t)))),
     IdentityFile_SSHClientConfig =
        (\<lambda>ident. Inr \<lparr>Auth = [], HostKeyCallback = \<lparr>GetHostCheckers = (\<lambda>_. Return (CACerts_SSH ident, None))\<rparr>,
                       Timeout = 30, User = ''-teleport-internal-join''\<rparr>),
     keys_X509KeyPair =
        (\<lambda>c k. if c = [] \<or> k = [] then Inl (BadParameter ''tls: failed to find any PEM data'')
                else Inr (c, k)),
     keys_ParsePrivateKey = toy_parse,
     x509_NewCertPool = [],
     x509_AppendCertsFromPEM = (\<lambda>pool pem. if pem = [] then (pool, False) else (pool @ [pem], True)),
     x509_AddCert = (\<lambda>pool x. pool @ [fst x]),
     x509_Verify = toy_Verify,
     sshutils_ParseCertificate = toy_parse,
     sshutils_ParseKnownHosts =
        (\<lambda>bs. if [] \<in> set bs then Inl (BadParameter ''no data'') else Inr bs),
     sshutils_SSHSigner =
        (\<lambda>c k. case (c, k) of
                  (Some c', Some k') \<Rightarrow> Inr (c', k')
                | _ \<Rightarrow> Inl (BadParameter ''ssh: unsupported key type'')),
     sshutils_NewHostKeyCallback = Inr,
     utils_Deduplicate = (\<lambda>xs. rev (remdups (rev xs))),
     defaults_DefaultIOTimeout = 30\<rparr>"

text \<open>
  A file system with two good identity files, an identity file whose SSH certificate is
  empty, a file that does not decode, and nothing else.
\<close>

definition toy_fs :: filesystem where
  "toy_fs p =
    (if p = ''/id/a'' then Inr (toy_identity ''a'')
     else if p = ''/id/b'' then Inr (toy_identity ''b'')
     else if p = ''/id/nossh'' then Inr ((toy_identity ''a'')\<lparr>Certs_SSH := []\<rparr>)
     else if p = ''/id/garbled'' then Inl (BadParameter ''unknown PEM block'')
     else Inl (TraceError NotFoundKind ''no such file or directory''))"

text \<open>The same paths after the file \<^verbatim>\<open>/id/a\<close> has been rewritten with the identity \<open>b\<close>.\<close>

definition toy_fs_rotated :: filesystem where
  "toy_fs_rotated p = (if p = ''/id/a'' then Inr (toy_identity ''b'') else toy_fs p)"

definition toy_provider :: "string \<Rightarrow> (bytes \<times> bytes, string list, bytes, bytes, bytes) DynamicIdentityFileCreds" where
  "toy_provider name =
    \<lparr>tlsCert = Some (name @ ''-tls'', name @ ''-key''), tlsRootCAs = Some [name @ ''-ca''],
     sshCert = Some (name @ ''-ssh''), sshKey = Some (name @ ''-key''),
     sshKnownHosts = [name @ ''-hostca''], Path = ''/id/a''\<rparr>"

section \<open>Properties\<close>

subsection \<open>What a call of Reload does\<close>


lemma Reload_error:
  assumes "Reload ext fs h d = Return (h', Some err)"
  shows "h' = h"
  using assms
  by (auto simp: Reload_def split: if_splits sum.splits option.splits)

lemma Reload_returns:
  assumes "d < length h"
  shows "\<exists>h' e. Reload ext fs h d = Return (h', e)"
  using assms
  by (auto simp: Reload_def split: if_splits sum.splits option.splits)

subsection \<open>A failed Reload\<close>

text \<open>
  C1: a \<^verbatim>\<open>Reload\<close> whose file cannot be read, or whose TLS key pair, TLS root PEM, SSH
  certificate, SSH private key or known hosts do not parse, returns an error and leaves
  the store of providers as it was; and whenever \<^verbatim>\<open>Reload\<close> returns an error, the store is
  the one before the call, so that the four callbacks of \<^verbatim>\<open>TLSConfig\<close> and
  \<^verbatim>\<open>SSHClientConfig\<close> behave after the call as they did before it.
\<close>

theorem Reload_failure_keeps_material:
  assumes "d < length h"
  shows "((isl (fs (Path (h ! d))) \<or>
          (\<exists>ident. fs (Path (h ! d)) = Inr ident \<and>
             (isl (keys_X509KeyPair ext (Certs_TLS ident) (PrivateKey ident)) \<or>
              Reload_caCerts ext (x509_NewCertPool ext) (CACerts_TLS ident) = None \<or>
              isl (sshutils_ParseCertificate ext (Certs_SSH ident)) \<or>
              isl (keys_ParsePrivateKey ext (PrivateKey ident)) \<or>
              isl (sshutils_ParseKnownHosts ext (CACerts_SSH ident)))))
         \<longrightarrow> (\<exists>err. Reload ext fs h d = Return (h, Some err)))
       \<and> (\<forall>h' err. Reload ext fs h d = Return (h', Some err) \<longrightarrow>
            h' = h \<and>
            TLSConfig_GetClientCertificate d h' = TLSConfig_GetClientCertificate d h \<and>
            TLSConfig_VerifyConnection ext d h' = TLSConfig_VerifyConnection ext d h \<and>
            SSHClientConfig_PublicKeysCallback ext d h' = SSHClientConfig_PublicKeysCallback ext d h \<and>
            SSHClientConfig_GetHostCheckers d h' = SSHClientConfig_GetHostCheckers d h)"
proof (intro conjI impI allI)
  assume "isl (fs (Path (h ! d))) \<or>
          (\<exists>ident. fs (Path (h ! d)) = Inr ident \<and>
             (isl (keys_X509KeyPair ext (Certs_TLS ident) (PrivateKey ident)) \<or>
              Reload_caCerts ext (x509_NewCertPool ext) (CACerts_TLS ident) = None \<or>
              isl (sshutils_ParseCertificate ext (Certs_SSH ident)) \<or>
              isl (keys_ParsePrivateKey ext (PrivateKey ident)) \<or>
              isl (sshutils_ParseKnownHosts ext (CACerts_SSH ident))))"
  with assms show "\<exists>err. Reload ext fs h d = Return (h, Some err)"
    by (auto simp: Reload_def isl_def split: sum.splits option.splits)
next
  fix h' err assume r: "Reload ext fs h d = Return (h', Some err)"
  then have eq: "h' = h" by (rule Reload_error)
  show "h' = h" by (rule eq)
  show "TLSConfig_GetClientCertificate d h' = TLSConfig_GetClientCertificate d h" by (simp add: eq)
  show "TLSConfig_VerifyConnection ext d h' = TLSConfig_VerifyConnection ext d h" by (simp add: eq)
  show "SSHClientConfig_PublicKeysCallback ext d h' = SSHClientConfig_PublicKeysCallback ext d h" by (simp add: eq)
  show "SSHClientConfig_GetHostCheckers d h' = SSHClientConfig_GetHostCheckers d h" by (simp add: eq)
qed

theorem Reload_failure_keeps_material_witness:
  "Reload toy_ext toy_fs [(toy_provider ''b'')\<lparr>Path := ''/id/nossh''\<rparr>] 0 =
     Return ([(toy_provider ''b'')\<lparr>Path := ''/id/nossh''\<rparr>], Some (BadParameter ''no data''))"
  using Reload_failure_keeps_material
    [of 0 "[(toy_provider ''b'')\<lparr>Path := ''/id/nossh''\<rparr>]" toy_fs toy_ext]
  by (simp add: Reload_def toy_fs_def toy_ext_def toy_identity_def toy_parse_def toy_provider_def trace_Wrap_def)

subsection \<open>Reload after a configuration was built\<close>






subsection \<open>Construction\<close>

text \<open>
  C5: \<^verbatim>\<open>NewDynamicIdentityFileCreds\<close> allocates a provider and calls \<^verbatim>\<open>Reload\<close> on it, and it
  always returns. Either the file cannot be read or one of its five parts does not parse,
  and then the call returns the error of that \<^verbatim>\<open>Reload\<close> with a nil provider; or the file
  is read, all five parts parse, and the call returns a nil error with a pointer to a
  provider whose five fields hold what was parsed. No other result exists, so a provider
  with empty fields is never returned.
\<close>

theorem NewDynamicIdentityFileCreds_initial_Reload:
  "((isl (fs file) \<or>
     (\<exists>ident. fs file = Inr ident \<and>
        (isl (keys_X509KeyPair ext (Certs_TLS ident) (PrivateKey ident)) \<or>
         Reload_caCerts ext (x509_NewCertPool ext) (CACerts_TLS ident) = None \<or>
         isl (sshutils_ParseCertificate ext (Certs_SSH ident)) \<or>
         isl (keys_ParsePrivateKey ext (PrivateKey ident)) \<or>
         isl (sshutils_ParseKnownHosts ext (CACerts_SSH ident))))) \<and>
    (\<exists>h' err. NewDynamicIdentityFileCreds ext fs h file = Return (h', None, Some err) \<and>
       Reload ext fs
         (h @ [\<lparr>tlsCert = None, tlsRootCAs = None, sshCert = None, sshKey = None,
                 sshKnownHosts = [], Path = file\<rparr>]) (length h) = Return (h', Some err)))
   \<or>
   (\<exists>ident cert pool sc k kh.
      fs file = Inr ident \<and>
      keys_X509KeyPair ext (Certs_TLS ident) (PrivateKey ident) = Inr cert \<and>
      Reload_caCerts ext (x509_NewCertPool ext) (CACerts_TLS ident) = Some pool \<and>
      sshutils_ParseCertificate ext (Certs_SSH ident) = Inr sc \<and>
      keys_ParsePrivateKey ext (PrivateKey ident) = Inr k \<and>
      sshutils_ParseKnownHosts ext (CACerts_SSH ident) = Inr kh \<and>
      NewDynamicIdentityFileCreds ext fs h file =
        Return (h @ [\<lparr>tlsCert = Some cert, tlsRootCAs = Some pool, sshCert = Some sc,
                       sshKey = Some k, sshKnownHosts = kh, Path = file\<rparr>],
                Some (length h), None))"
  by (auto simp: NewDynamicIdentityFileCreds_def Reload_def Let_def trace_Wrap_def isl_def
       split: sum.splits option.splits)

theorem NewDynamicIdentityFileCreds_initial_Reload_witness:
  "NewDynamicIdentityFileCreds toy_ext toy_fs [] ''/id/a'' = Return ([toy_provider ''a''], Some 0, None) \<and>
   NewDynamicIdentityFileCreds toy_ext toy_fs [] ''/id/nossh'' =
     Return ([\<lparr>tlsCert = None, tlsRootCAs = None, sshCert = None, sshKey = None,
                sshKnownHosts = [], Path = ''/id/nossh''\<rparr>], None, Some (BadParameter ''no data''))"
  using NewDynamicIdentityFileCreds_initial_Reload [of toy_fs "''/id/a''" toy_ext "[]"]
  by (simp add: NewDynamicIdentityFileCreds_def Reload_def Let_def toy_fs_def toy_ext_def
       toy_identity_def toy_parse_def toy_provider_def trace_Wrap_def)

subsection \<open>The callbacks of the configurations\<close>



text \<open>
  C8: for every provider pointer (a nil one too) and every store of configurations,
  \<^verbatim>\<open>TLSConfig\<close> returns a nil error and a pointer to a new configuration, leaving the
  configurations that exist as they are. The new configuration carries the two callbacks
  of the provider, skips the built-in verification, names \<^verbatim>\<open>constants.APIDomain\<close> as server
  and offers the protocol \<^verbatim>\<open>h2\<close>. What the provider holds is read by the callbacks only.
\<close>

theorem TLSConfig_never_fails:
  "\<exists>t' p cfg. DynamicIdentityFileCreds_TLSConfig ext t d = (t', Some p, None) \<and>
     p < length (configs t') \<and> configs t' ! p = cfg \<and>
     p = length (configs t) \<and> take p (configs t') = configs t \<and>
     GetClientCertificate cfg = Some (TLSConfig_GetClientCertificate d) \<and>
     VerifyConnection cfg = Some (TLSConfig_VerifyConnection ext d) \<and>
     InsecureSkipVerify cfg \<and> ServerName cfg = APIDomain \<and>
     slice_elems (arrays t') (NextProtos cfg) = [NextProtoTLS]"
  by (simp add: DynamicIdentityFileCreds_TLSConfig_def Let_def slice_elems_def)

theorem TLSConfig_never_fails_witness:
  "DynamicIdentityFileCreds_TLSConfig toy_ext \<lparr>configs = [], arrays = []\<rparr> 7 =
     (\<lparr>configs = [\<lparr>NextProtos = \<lparr>base = 0, off = 0, len = 1, cap = 1\<rparr>,
                ServerName = ''teleport.cluster.local'',
                Certificates = [],
                GetClientCertificate = Some (TLSConfig_GetClientCertificate 7),
                RootCAs = None,
                InsecureSkipVerify = True,
                VerifyConnection = Some (TLSConfig_VerifyConnection toy_ext 7)\<rparr>], arrays = [[''h2'']]\<rparr>,
      Some 0, None) \<and>
   TLSConfig_GetClientCertificate 7 ([] :: toy_store) = Panic ''nil pointer dereference''"
  using TLSConfig_never_fails [of toy_ext "\<lparr>configs = [], arrays = []\<rparr>" 7]
  by (simp add: DynamicIdentityFileCreds_TLSConfig_def Let_def APIDomain_def NextProtoTLS_def
       TLSConfig_GetClientCertificate_def)

subsection \<open>configureTLS and its argument\<close>

text \<open>
  An element written behind the window of a slice is not among the elements the slice
  shows; so \<^verbatim>\<open>append\<close>, in place or not, leaves the elements of the slice it was given.
\<close>

lemma window_update_behind:
  "take n (drop k (xs[k + n := x])) = take n (drop k xs)"
  by (simp add: drop_update_swap)

lemma append_slice_keeps_window:
  assumes "slice_ok arrs s" and "append_slice arrs s x = (arrs', s')"
  shows "slice_elems (arrs' @ later) s = slice_elems arrs s"
proof (cases "len s < cap s")
  case True
  with assms have b: "base s < length arrs" and a: "arrs' = arrs[base s := (arrs ! base s)[off s + len s := x]]"
    by (auto simp: slice_ok_def append_slice_def)
  from a b show ?thesis
    by (simp add: slice_elems_def nth_append window_update_behind)
next
  case False
  with assms have a: "arrs' = arrs @ [slice_elems arrs s @ [x]]"
    by (auto simp: append_slice_def)
  from False assms(1) have "len s = 0 \<or> base s < length arrs"
    by (auto simp: slice_ok_def)
  with a show ?thesis
    by (auto simp: slice_elems_def nth_append)
qed

text \<open>
  C9: \<^verbatim>\<open>configureTLS\<close>, called on a configuration that exists and whose \<^verbatim>\<open>NextProtos\<close> is a
  slice as Go maintains them, returns a pointer to a new configuration and leaves every
  configuration that existed, its argument among them, with all fields as they were; the
  elements that the argument's \<^verbatim>\<open>NextProtos\<close> shows are the same too, also when
  \<^verbatim>\<open>append\<close> writes into the spare room of the array the two slices share. The
  \<^verbatim>\<open>ServerName\<close> of the result is the argument's when that is not empty, and
  \<^verbatim>\<open>constants.APIDomain\<close> when it is.
\<close>

theorem configureTLS_leaves_argument:
  assumes c: "c < length (configs t)"
    and ok: "slice_ok (arrays t) (NextProtos (configs t ! c))"
  shows "\<exists>t' p. configureTLS ext t c = Return (t', p) \<and>
     p = length (configs t) \<and> p \<noteq> c \<and> p < length (configs t') \<and>
     take p (configs t') = configs t \<and>
     configs t' ! c = configs t ! c \<and>
     slice_elems (arrays t') (NextProtos (configs t' ! c)) =
       slice_elems (arrays t) (NextProtos (configs t ! c)) \<and>
     ServerName (configs t' ! p) =
       (if ServerName (configs t ! c) = [] then APIDomain else ServerName (configs t ! c))"
proof -
  obtain arrs appended where ap:
    "append_slice (arrays t) (NextProtos (configs t ! c)) NextProtoTLS = (arrs, appended)"
    by (cases "append_slice (arrays t) (NextProtos (configs t ! c)) NextProtoTLS")
  define deduped where "deduped = utils_Deduplicate ext (slice_elems arrs appended)"
  from append_slice_keeps_window [OF ok ap, of "[deduped]"]
  have w: "slice_elems (arrs @ [deduped]) (NextProtos (configs t ! c)) =
           slice_elems (arrays t) (NextProtos (configs t ! c))" .
  from c ap w show ?thesis
    by (simp add: configureTLS_def Let_def modify_config_def nth_append deduped_def)
qed

theorem configureTLS_leaves_argument_witness:
  "configureTLS toy_ext
     \<lparr>configs = [\<lparr>NextProtos = \<lparr>base = 0, off = 0, len = 1, cap = 2\<rparr>,
                  ServerName = ''proxy.example.com'',
                  Certificates = [(''a-tls'', ''a-key'')],
                  GetClientCertificate = None, RootCAs = Some [''a-ca''],
                  InsecureSkipVerify = False, VerifyConnection = None\<rparr>],
      arrays = [[''http/1.1'', ''spare'']]\<rparr> 0 =
   Return
    (\<lparr>configs =
      [\<lparr>NextProtos = \<lparr>base = 0, off = 0, len = 1, cap = 2\<rparr>,
          ServerName = ''proxy.example.com'',
          Certificates = [(''a-tls'', ''a-key'')],
          GetClientCertificate = None, RootCAs = Some [''a-ca''],
          InsecureSkipVerify = False, VerifyConnection = None\<rparr>,
       \<lparr>NextProtos = \<lparr>base = 1, off = 0, len = 2, cap = 2\<rparr>,
          ServerName = ''proxy.example.com'', Certificates = [],
          GetClientCertificate = Some (\<lambda>_. Return (Some (''a-tls'', ''a-key''), None)),
          RootCAs = Some [''a-ca''],
          InsecureSkipVerify = False, VerifyConnection = None\<rparr>],
      arrays = [[''http/1.1'', ''h2''], [''http/1.1'', ''h2'']]\<rparr>,
     1) \<and>
   slice_elems [[''http/1.1'', ''h2''], [''http/1.1'', ''h2'']] \<lparr>base = 0, off = 0, len = 1, cap = 2\<rparr> =
     [''http/1.1'']"
  using configureTLS_leaves_argument
    [of 0 "\<lparr>configs = [\<lparr>NextProtos = \<lparr>base = 0, off = 0, len = 1, cap = 2\<rparr>,
                  ServerName = ''proxy.example.com'',
                  Certificates = [(''a-tls'', ''a-key'')],
                  GetClientCertificate = None, RootCAs = Some [''a-ca''],
                  InsecureSkipVerify = False, VerifyConnection = None\<rparr>],
      arrays = [[''http/1.1'', ''spare'']]\<rparr>" toy_ext]
  by (simp add: configureTLS_def Let_def modify_config_def append_slice_def slice_elems_def
       slice_ok_def NextProtoTLS_def toy_ext_def)

subsection \<open>One generation per store, two stores per connection attempt\<close>




subsection \<open>The name that VerifyConnection checks\<close>

text \<open>
  C3: the configuration of \<^verbatim>\<open>TLSConfig\<close> skips the built-in verification and names
  \<^verbatim>\<open>constants.APIDomain\<close> as server. Its \<^verbatim>\<open>VerifyConnection\<close>, for a provider that exists and
  a connection state with at least one peer certificate, returns what \<^verbatim>\<open>Verify\<close> says
  about the first certificate, with the other certificates as intermediates, the current
  \<open>tlsRootCAs\<close> as roots, and as \<open>DNSName\<close> the \<^verbatim>\<open>ServerName\<close> of the connection state: that is
  \<^verbatim>\<open>constants.APIDomain\<close> when the state carries that name, and another name otherwise. On
  a connection state without peer certificates it panics at \<^verbatim>\<open>state.PeerCertificates[1:]\<close>.
\<close>

theorem VerifyConnection_checks_name_of_state:
  assumes "DynamicIdentityFileCreds_TLSConfig ext t d = (t', Some p, None)"
    and "d < length h"
  shows "InsecureSkipVerify (configs t' ! p) \<and> ServerName (configs t' ! p) = APIDomain \<and>
     (\<exists>verify. VerifyConnection (configs t' ! p) = Some verify \<and>
        (\<forall>name leaf rest.
           verify h \<lparr>CS_ServerName = name, PeerCertificates = leaf # rest\<rparr> =
             Return (x509_Verify ext leaf
               \<lparr>DNSName = name,
                Intermediates = foldl (x509_AddCert ext) (x509_NewCertPool ext) rest,
                Roots = tlsRootCAs (h ! d)\<rparr>)) \<and>
        (\<forall>leaf rest.
           verify h \<lparr>CS_ServerName = APIDomain, PeerCertificates = leaf # rest\<rparr> =
             Return (x509_Verify ext leaf
               \<lparr>DNSName = APIDomain,
                Intermediates = foldl (x509_AddCert ext) (x509_NewCertPool ext) rest,
                Roots = tlsRootCAs (h ! d)\<rparr>)) \<and>
        (\<forall>name. verify h \<lparr>CS_ServerName = name, PeerCertificates = []\<rparr> =
             Panic ''slice bounds out of range [1:0]''))"
  using assms
  by (auto simp: DynamicIdentityFileCreds_TLSConfig_def TLSConfig_VerifyConnection_def Let_def)

theorem VerifyConnection_checks_name_of_state_witness:
  "TLSConfig_VerifyConnection toy_ext 0 [toy_provider ''a'']
       \<lparr>CS_ServerName = ''teleport.cluster.local'',
        PeerCertificates = [(''teleport.cluster.local'', ''a-ca''), (''a-ca'', ''root'')]\<rparr> = Return None \<and>
   TLSConfig_VerifyConnection toy_ext 0 [toy_provider ''a'']
       \<lparr>CS_ServerName = ''teleport.cluster.local'',
        PeerCertificates = [(''teleport.cluster.local'', ''evil-ca'')]\<rparr> =
     Return (Some (TraceError UnclassifiedKind ''x509: certificate is not valid'')) \<and>
   TLSConfig_VerifyConnection toy_ext 0 [toy_provider ''a'']
       \<lparr>CS_ServerName = ''teleport.cluster.local'', PeerCertificates = []\<rparr> =
     Panic ''slice bounds out of range [1:0]''"
  using VerifyConnection_checks_name_of_state
    [of toy_ext "\<lparr>configs = [], arrays = []\<rparr>" 0
        "\<lparr>configs = [\<lparr>NextProtos = \<lparr>base = 0, off = 0, len = 1, cap = 1\<rparr>,
                ServerName = APIDomain,
                Certificates = [],
                GetClientCertificate = Some (TLSConfig_GetClientCertificate 0),
                RootCAs = None,
                InsecureSkipVerify = True,
                VerifyConnection = Some (TLSConfig_VerifyConnection toy_ext 0)\<rparr>], arrays = [[NextProtoTLS]]\<rparr>"
        0 "[toy_provider ''a'']"]
  by (simp add: DynamicIdentityFileCreds_TLSConfig_def TLSConfig_VerifyConnection_def Let_def
       toy_Verify_def toy_ext_def toy_provider_def)

text \<open>
  C3, the name is not fixed: on a connection state whose \<^verbatim>\<open>ServerName\<close> is
  \<^verbatim>\<open>proxy.example.com\<close>, the callback accepts a certificate for \<^verbatim>\<open>proxy.example.com\<close> that
  a verification for \<^verbatim>\<open>constants.APIDomain\<close> refuses, and refuses a certificate for
  \<^verbatim>\<open>constants.APIDomain\<close> that such a verification accepts; the roots are the same in all
  four.
\<close>

theorem VerifyConnection_sentinel_counterexample:
  "TLSConfig_VerifyConnection toy_ext 0 [toy_provider ''a'']
       \<lparr>CS_ServerName = ''proxy.example.com'',
        PeerCertificates = [(''proxy.example.com'', ''a-ca'')]\<rparr> = Return None \<and>
   x509_Verify toy_ext (''proxy.example.com'', ''a-ca'')
       \<lparr>DNSName = APIDomain, Intermediates = [], Roots = Some [''a-ca'']\<rparr> =
     Some (TraceError UnclassifiedKind ''x509: certificate is not valid'') \<and>
   TLSConfig_VerifyConnection toy_ext 0 [toy_provider ''a'']
       \<lparr>CS_ServerName = ''proxy.example.com'',
        PeerCertificates = [(''teleport.cluster.local'', ''a-ca'')]\<rparr> =
     Return (Some (TraceError UnclassifiedKind ''x509: certificate is not valid'')) \<and>
   x509_Verify toy_ext (''teleport.cluster.local'', ''a-ca'')
       \<lparr>DNSName = APIDomain, Intermediates = [], Roots = Some [''a-ca'']\<rparr> = None"
  by (simp add: TLSConfig_VerifyConnection_def Let_def APIDomain_def
       toy_Verify_def toy_ext_def toy_provider_def)

subsection \<open>The errors of the loaders\<close>






subsection \<open>Static credentials load once\<close>

text \<open>
  A static credential that holds an identity file does not call its loader: \<^verbatim>\<open>load\<close>
  returns at once, and the two methods go on with the identity file held. A call that
  returned a configuration went through a \<^verbatim>\<open>load\<close> that succeeded, and such a \<^verbatim>\<open>load\<close>
  leaves an identity file in the credential. None of \<^verbatim>\<open>configureTLS\<close> and the methods of
  \<^verbatim>\<open>IdentityFile\<close> depends on \<^verbatim>\<open>identityfile.FromString\<close>.
\<close>

lemma identityCredsFile_load_cached:
  "identityFile c = Some ident \<Longrightarrow> identityCredsFile_load fs c = (c, None)"
  by (simp add: identityCredsFile_load_def)

lemma identityCredsFile_load_success:
  assumes "identityCredsFile_load fs c = (c', None)"
  shows "\<exists>ident. identityFile c' = Some ident \<and>
           (identityFile c = None \<longrightarrow> fs (path c) = Inr ident)"
  using assms
  by (auto simp: identityCredsFile_load_def split: if_splits sum.splits)

lemma identityCredsString_load_cached:
  "identityFileS c = Some ident \<Longrightarrow> identityCredsString_load ext c = (c, None)"
  by (simp add: identityCredsString_load_def)

lemma identityCredsString_load_success:
  assumes "identityCredsString_load ext c = (c', None)"
  shows "\<exists>ident. identityFileS c' = Some ident \<and>
           (identityFileS c = None \<longrightarrow> identityfile_FromString ext (content c) = Inr ident)"
  using assms
  by (auto simp: identityCredsString_load_def split: if_splits sum.splits)

lemma identityCredsFile_call_loaded:
  assumes "identityCredsFile_TLSConfig ext fs t c = (c', Return (t', Some p, None)) \<or>
           identityCredsFile_SSHClientConfig ext fs c = (c', Return (Some sshConfig, None))"
  shows "identityCredsFile_load fs c = (c', None)"
  using assms
  by (auto simp: identityCredsFile_TLSConfig_def identityCredsFile_SSHClientConfig_def
       split: prod.splits option.splits sum.splits outcome.splits)

lemma identityCredsString_call_loaded:
  assumes "identityCredsString_TLSConfig ext t c = (c', Return (t', Some p, None)) \<or>
           identityCredsString_SSHClientConfig ext c = (c', Return (Some sshConfig, None))"
  shows "identityCredsString_load ext c = (c', None)"
  using assms
  by (auto simp: identityCredsString_TLSConfig_def identityCredsString_SSHClientConfig_def
       split: prod.splits option.splits sum.splits outcome.splits)

lemma configureTLS_FromString:
  "configureTLS (ext\<lparr>identityfile_FromString := f\<rparr>) t c = configureTLS ext t c"
  by (simp add: configureTLS_def)

lemma identityCredsFile_TLSConfig_cached:
  "identityFile c = Some ident \<Longrightarrow>
   identityCredsFile_TLSConfig ext fs t c =
     (c, case IdentityFile_TLSConfig ext t ident of
           (t', Inl err) \<Rightarrow> Return (t', None, Some err)
         | (t', Inr tlsConfig) \<Rightarrow>
             (case configureTLS ext t' tlsConfig of
                Panic msg \<Rightarrow> Panic msg
              | Return (t'', p) \<Rightarrow> Return (t'', Some p, None)))"
  by (simp add: identityCredsFile_TLSConfig_def identityCredsFile_load_def trace_Wrap_def
       split: prod.splits sum.splits outcome.splits)

lemma identityCredsFile_SSHClientConfig_cached:
  "identityFile c = Some ident \<Longrightarrow>
   identityCredsFile_SSHClientConfig ext fs c =
     (c, case IdentityFile_SSHClientConfig ext ident of
           Inl err \<Rightarrow> Return (None, Some err)
         | Inr sshConfig \<Rightarrow> Return (Some sshConfig, None))"
  by (simp add: identityCredsFile_SSHClientConfig_def identityCredsFile_load_def trace_Wrap_def
       split: prod.splits sum.splits outcome.splits)

lemma identityCredsString_TLSConfig_cached:
  "identityFileS c = Some ident \<Longrightarrow>
   identityCredsString_TLSConfig ext t c =
     (c, case IdentityFile_TLSConfig ext t ident of
           (t', Inl err) \<Rightarrow> Return (t', None, Some err)
         | (t', Inr tlsConfig) \<Rightarrow>
             (case configureTLS ext t' tlsConfig of
                Panic msg \<Rightarrow> Panic msg
              | Return (t'', p) \<Rightarrow> Return (t'', Some p, None)))"
  by (simp add: identityCredsString_TLSConfig_def identityCredsString_load_def trace_Wrap_def
       split: prod.splits sum.splits outcome.splits)

lemma identityCredsString_SSHClientConfig_cached:
  "identityFileS c = Some ident \<Longrightarrow>
   identityCredsString_SSHClientConfig ext c =
     (c, case IdentityFile_SSHClientConfig ext ident of
           Inl err \<Rightarrow> Return (None, Some err)
         | Inr sshConfig \<Rightarrow> Return (Some sshConfig, None))"
  by (simp add: identityCredsString_SSHClientConfig_def identityCredsString_load_def trace_Wrap_def
       split: prod.splits sum.splits outcome.splits)

lemma IdentityFile_TLSConfig_FromString:
  "IdentityFile_TLSConfig (ext\<lparr>identityfile_FromString := f\<rparr>) = IdentityFile_TLSConfig ext"
  by simp

lemma IdentityFile_SSHClientConfig_FromString:
  "IdentityFile_SSHClientConfig (ext\<lparr>identityfile_FromString := f\<rparr>) = IdentityFile_SSHClientConfig ext"
  by simp

text \<open>
  C10: after a call of \<^verbatim>\<open>TLSConfig\<close> or \<^verbatim>\<open>SSHClientConfig\<close> on an \<^verbatim>\<open>identityCredsFile\<close> that
  returned a configuration, the credential holds the identity file that was read (from
  the file at \<open>path\<close>, if it held none before), and every later call of \<^verbatim>\<open>load\<close>,
  \<^verbatim>\<open>TLSConfig\<close> or \<^verbatim>\<open>SSHClientConfig\<close> leaves the credential as it is and returns the same
  whatever the file system holds by then. The same holds of \<^verbatim>\<open>identityCredsString\<close>, with
  any other parser in the place of \<^verbatim>\<open>identityfile.FromString\<close> and any other text in
  \<open>content\<close>. A \<^verbatim>\<open>Reload\<close> of the dynamic provider reads the file again, as the last line of
  the example shows.
\<close>

theorem static_credentials_load_once:
  "(identityCredsFile_TLSConfig ext fs t c = (c', Return (t', Some p, None)) \<or>
    identityCredsFile_SSHClientConfig ext fs c = (c', Return (Some sshConfig, None)) \<longrightarrow>
      identityFile c' \<noteq> None \<and>
      (identityFile c = None \<longrightarrow> fs (path c) = Inr (the (identityFile c'))) \<and>
      (\<forall>fs1. identityCredsFile_load fs1 c' = (c', None)) \<and>
      (\<forall>fs1 t1. identityCredsFile_TLSConfig ext fs1 t1 c' = identityCredsFile_TLSConfig ext fs t1 c' \<and>
                fst (identityCredsFile_TLSConfig ext fs1 t1 c') = c') \<and>
      (\<forall>fs1. identityCredsFile_SSHClientConfig ext fs1 c' = identityCredsFile_SSHClientConfig ext fs c' \<and>
             fst (identityCredsFile_SSHClientConfig ext fs1 c') = c'))
   \<and>
   (identityCredsString_TLSConfig ext t s = (s', Return (t', Some p, None)) \<or>
    identityCredsString_SSHClientConfig ext s = (s', Return (Some sshConfig, None)) \<longrightarrow>
      identityFileS s' \<noteq> None \<and>
      (identityFileS s = None \<longrightarrow> identityfile_FromString ext (content s) = Inr (the (identityFileS s'))) \<and>
      (\<forall>parse. identityCredsString_load (ext\<lparr>identityfile_FromString := parse\<rparr>) s' = (s', None)) \<and>
      (\<forall>parse str t1.
         identityCredsString_TLSConfig (ext\<lparr>identityfile_FromString := parse\<rparr>) t1 (s'\<lparr>content := str\<rparr>) =
           (s'\<lparr>content := str\<rparr>, snd (identityCredsString_TLSConfig ext t1 s'))) \<and>
      (\<forall>parse str.
         identityCredsString_SSHClientConfig (ext\<lparr>identityfile_FromString := parse\<rparr>) (s'\<lparr>content := str\<rparr>) =
           (s'\<lparr>content := str\<rparr>, snd (identityCredsString_SSHClientConfig ext s'))))"
proof -
  have for_file: "identityFile c' \<noteq> None \<and>
      (identityFile c = None \<longrightarrow> fs (path c) = Inr (the (identityFile c'))) \<and>
      (\<forall>fs1. identityCredsFile_load fs1 c' = (c', None)) \<and>
      (\<forall>fs1 t1. identityCredsFile_TLSConfig ext fs1 t1 c' = identityCredsFile_TLSConfig ext fs t1 c' \<and>
                fst (identityCredsFile_TLSConfig ext fs1 t1 c') = c') \<and>
      (\<forall>fs1. identityCredsFile_SSHClientConfig ext fs1 c' = identityCredsFile_SSHClientConfig ext fs c' \<and>
             fst (identityCredsFile_SSHClientConfig ext fs1 c') = c')"
    if a: "identityCredsFile_TLSConfig ext fs t c = (c', Return (t', Some p, None)) \<or>
           identityCredsFile_SSHClientConfig ext fs c = (c', Return (Some sshConfig, None))"
  proof -
    from identityCredsFile_load_success [OF identityCredsFile_call_loaded [OF a]]
    obtain ident where i: "identityFile c' = Some ident"
      and f: "identityFile c = None \<longrightarrow> fs (path c) = Inr ident"
      by (elim exE conjE)
    have 1: "identityFile c' \<noteq> None" using i by simp
    have 2: "identityFile c = None \<longrightarrow> fs (path c) = Inr (the (identityFile c'))"
      using i f by simp
    have 3: "\<forall>fs1. identityCredsFile_load fs1 c' = (c', None)"
      by (simp only: identityCredsFile_load_cached [OF i] simp_thms)
    have 4: "\<forall>fs1 t1. identityCredsFile_TLSConfig ext fs1 t1 c' = identityCredsFile_TLSConfig ext fs t1 c' \<and>
                fst (identityCredsFile_TLSConfig ext fs1 t1 c') = c'"
      by (simp only: identityCredsFile_TLSConfig_cached [OF i] fst_conv simp_thms)
    have 5: "\<forall>fs1. identityCredsFile_SSHClientConfig ext fs1 c' = identityCredsFile_SSHClientConfig ext fs c' \<and>
             fst (identityCredsFile_SSHClientConfig ext fs1 c') = c'"
      by (simp only: identityCredsFile_SSHClientConfig_cached [OF i] fst_conv simp_thms)
    from 1 2 3 4 5 show ?thesis by (intro conjI)
  qed
  have for_string: "identityFileS s' \<noteq> None \<and>
      (identityFileS s = None \<longrightarrow> identityfile_FromString ext (content s) = Inr (the (identityFileS s'))) \<and>
      (\<forall>parse. identityCredsString_load (ext\<lparr>identityfile_FromString := parse\<rparr>) s' = (s', None)) \<and>
      (\<forall>parse str t1.
         identityCredsString_TLSConfig (ext\<lparr>identityfile_FromString := parse\<rparr>) t1 (s'\<lparr>content := str\<rparr>) =
           (s'\<lparr>content := str\<rparr>, snd (identityCredsString_TLSConfig ext t1 s'))) \<and>
      (\<forall>parse str.
         identityCredsString_SSHClientConfig (ext\<lparr>identityfile_FromString := parse\<rparr>) (s'\<lparr>content := str\<rparr>) =
           (s'\<lparr>content := str\<rparr>, snd (identityCredsString_SSHClientConfig ext s')))"
    if a: "identityCredsString_TLSConfig ext t s = (s', Return (t', Some p, None)) \<or>
           identityCredsString_SSHClientConfig ext s = (s', Return (Some sshConfig, None))"
  proof -
    from identityCredsString_load_success [OF identityCredsString_call_loaded [OF a]]
    obtain ident where i: "identityFileS s' = Some ident"
      and f: "identityFileS s = None \<longrightarrow> identityfile_FromString ext (content s) = Inr ident"
      by (elim exE conjE)
    have j: "identityFileS (s'\<lparr>content := str\<rparr>) = Some ident" for str using i by simp
    have 1: "identityFileS s' \<noteq> None" using i by simp
    have 2: "identityFileS s = None \<longrightarrow> identityfile_FromString ext (content s) = Inr (the (identityFileS s'))"
      using i f by simp
    have 3: "\<forall>parse. identityCredsString_load (ext\<lparr>identityfile_FromString := parse\<rparr>) s' = (s', None)"
      by (simp only: identityCredsString_load_cached [OF i] simp_thms)
    have 4: "\<forall>parse str t1.
         identityCredsString_TLSConfig (ext\<lparr>identityfile_FromString := parse\<rparr>) t1 (s'\<lparr>content := str\<rparr>) =
           (s'\<lparr>content := str\<rparr>, snd (identityCredsString_TLSConfig ext t1 s'))"
      by (simp only: identityCredsString_TLSConfig_cached [OF j] identityCredsString_TLSConfig_cached [OF i]
           configureTLS_FromString IdentityFile_TLSConfig_FromString snd_conv simp_thms)
    have 5: "\<forall>parse str.
         identityCredsString_SSHClientConfig (ext\<lparr>identityfile_FromString := parse\<rparr>) (s'\<lparr>content := str\<rparr>) =
           (s'\<lparr>content := str\<rparr>, snd (identityCredsString_SSHClientConfig ext s'))"
      by (simp only: identityCredsString_SSHClientConfig_cached [OF j] identityCredsString_SSHClientConfig_cached [OF i]
           IdentityFile_SSHClientConfig_FromString snd_conv simp_thms)
    from 1 2 3 4 5 show ?thesis by (intro conjI)
  qed
  show ?thesis
    by (rule conjI [OF impI [OF for_file] impI [OF for_string]])
qed

theorem static_credentials_load_once_witness:
  "identityCredsFile_SSHClientConfig toy_ext toy_fs \<lparr>identityFile = None, path = ''/id/a''\<rparr> =
     (\<lparr>identityFile = Some (toy_identity ''a''), path = ''/id/a''\<rparr>,
      Return (Some \<lparr>Auth = [], HostKeyCallback = \<lparr>GetHostCheckers = (\<lambda>_. Return ([''a-hostca''], None))\<rparr>,
                     Timeout = 30, User = ''-teleport-internal-join''\<rparr>, None)) \<and>
   identityCredsFile_SSHClientConfig toy_ext toy_fs_rotated
       \<lparr>identityFile = Some (toy_identity ''a''), path = ''/id/a''\<rparr> =
     (\<lparr>identityFile = Some (toy_identity ''a''), path = ''/id/a''\<rparr>,
      Return (Some \<lparr>Auth = [], HostKeyCallback = \<lparr>GetHostCheckers = (\<lambda>_. Return ([''a-hostca''], None))\<rparr>,
                     Timeout = 30, User = ''-teleport-internal-join''\<rparr>, None)) \<and>
   identityCredsString_SSHClientConfig toy_ext \<lparr>identityFileS = None, content = ''a''\<rparr> =
     (\<lparr>identityFileS = Some (toy_identity ''a''), content = ''a''\<rparr>,
      Return (Some \<lparr>Auth = [], HostKeyCallback = \<lparr>GetHostCheckers = (\<lambda>_. Return ([''a-hostca''], None))\<rparr>,
                     Timeout = 30, User = ''-teleport-internal-join''\<rparr>, None)) \<and>
   identityCredsString_SSHClientConfig toy_ext \<lparr>identityFileS = Some (toy_identity ''a''), content = ''b''\<rparr> =
     (\<lparr>identityFileS = Some (toy_identity ''a''), content = ''b''\<rparr>,
      Return (Some \<lparr>Auth = [], HostKeyCallback = \<lparr>GetHostCheckers = (\<lambda>_. Return ([''a-hostca''], None))\<rparr>,
                     Timeout = 30, User = ''-teleport-internal-join''\<rparr>, None)) \<and>
   Reload toy_ext toy_fs_rotated [toy_provider ''a''] 0 = Return ([toy_provider ''b''], None)"
  using static_credentials_load_once
    [of toy_ext toy_fs "\<lparr>configs = [], arrays = []\<rparr>" "\<lparr>identityFile = None, path = ''/id/a''\<rparr>"
        "\<lparr>identityFile = Some (toy_identity ''a''), path = ''/id/a''\<rparr>"
        "\<lparr>configs = [], arrays = []\<rparr>" 0
        "\<lparr>Auth = [], HostKeyCallback = \<lparr>GetHostCheckers = (\<lambda>_. Return ([''a-hostca''], None))\<rparr>,
                     Timeout = 30, User = ''-teleport-internal-join''\<rparr>"
        "\<lparr>identityFileS = None, content = ''a''\<rparr>"
        "\<lparr>identityFileS = Some (toy_identity ''a''), content = ''a''\<rparr>"]
  by (simp add: identityCredsFile_SSHClientConfig_def identityCredsFile_load_def
       identityCredsString_SSHClientConfig_def identityCredsString_load_def
       Reload_def toy_fs_def toy_fs_rotated_def toy_ext_def toy_identity_def toy_parse_def
       toy_provider_def trace_Wrap_def)

end
